theory Spec2Isabelle
  imports Main "HOL-Library.Stream" "HOL-Library.Word"
begin

section \<open>Voice-controlled LED: the data model\<close>

text \<open>
  The program (\<^verbatim>\<open>voice.py\<close>) reads microphone frames, feeds them to a speech
  recogniser and drives one GPIO pin from the recognised text. Its collaborators
  (RPi.GPIO, PyAudio, Vosk, the terminal) are external; the model records every call the
  program makes on them in a trace, in program order, and keeps the level of the LED pin.
  What the collaborators answer (the bytes read, the recogniser's verdict and text, an
  exception raised by a call) is an input of the model.
\<close>

text \<open>The constants of the module.\<close>

definition LED_PIN :: nat where
  "LED_PIN = 18"

definition MODEL_PATH :: string where
  "MODEL_PATH = ''/home/pi/vosk-model''"

definition AUDIO_RATE :: nat where
  "AUDIO_RATE = 16000"

definition BUFFER_SIZE :: nat where
  "BUFFER_SIZE = 4096"

text \<open>\<^verbatim>\<open>GPIO.HIGH\<close> and \<^verbatim>\<open>GPIO.LOW\<close>.\<close>

datatype level = High | Low

text \<open>
  The exceptions that matter to the control flow of \<^verbatim>\<open>main\<close>: the operator's
  interrupt, the error \<^verbatim>\<open>setup_recognizer\<close> raises itself, and any other exception
  of a collaborator (an \<^verbatim>\<open>OSError\<close> of the audio device, say), with its message.
\<close>

datatype exn = KeyboardInterrupt | FileNotFoundError string | OtherError string

type_synonym bytes = "8 word list"

text \<open>One constructor for each call on a collaborator, with the arguments the program passes.\<close>

datatype event =
    GpioSetmode
  | GpioSetup nat
  | GpioOutput nat level
  | GpioCleanup
  | PathExists string
  | ModelLoad string
  | RecognizerCreate nat
  | PyAudioCreate
  | StreamOpen nat nat
  | StreamStart
  | StreamRead nat
  | AcceptWaveform bytes
  | GetResult
  | GetPartialResult
  | StreamStop
  | StreamClose
  | PyAudioTerminate
  | Print string

text \<open>
  The state the program acts on: the level last written to the LED pin (the actuator) by
  \<^verbatim>\<open>GPIO.output\<close>, and the calls made so far, oldest first.
\<close>

record world =
  led :: level
  trace :: "event list"

definition emit :: "event \<Rightarrow> world \<Rightarrow> world" where
  "emit e w = w\<lparr>trace := trace w @ [e]\<rparr>"

definition print :: "string \<Rightarrow> world \<Rightarrow> world" where
  "print s w = emit (Print s) w"

text \<open>\<^verbatim>\<open>GPIO.output(pin, level)\<close> on the LED pin: the call is recorded and the pin takes the level.\<close>

definition gpio_output :: "level \<Rightarrow> world \<Rightarrow> world" where
  "gpio_output l w = (emit (GpioOutput LED_PIN l) w)\<lparr>led := l\<rparr>"

section \<open>Strings\<close>

text \<open>
  A Python \<^verbatim>\<open>str\<close> is modelled as a \<^typ>\<open>string\<close>. \<^verbatim>\<open>str.lower()\<close> maps the
  letters \<^verbatim>\<open>A\<close> to \<^verbatim>\<open>Z\<close> (codes 65 to 90) to \<^verbatim>\<open>a\<close> to \<^verbatim>\<open>z\<close> and
  leaves every other character of the model as it is. The keywords the program looks for
  are ASCII, so the letters outside ASCII, which Python lowers too, play no part in a match.
\<close>

definition char_lower :: "char \<Rightarrow> char" where
  "char_lower c =
     (let n = (of_char c :: nat) in if 65 \<le> n \<and> n \<le> 90 then char_of (n + 32) else c)"

definition lower :: "string \<Rightarrow> string" where
  "lower s = map char_lower s"

text \<open>\<^verbatim>\<open>s.startswith(sub)\<close>, and \<^verbatim>\<open>sub in s\<close>: \<^verbatim>\<open>sub\<close> occurs at some position of \<^verbatim>\<open>s\<close>.\<close>

fun starts_with :: "string \<Rightarrow> string \<Rightarrow> bool" where
  "starts_with [] s = True"
| "starts_with (c # cs) [] = False"
| "starts_with (c # cs) (d # ds) = (c = d \<and> starts_with cs ds)"

fun str_contains :: "string \<Rightarrow> string \<Rightarrow> bool" where
  "str_contains sub [] = (sub = [])"
| "str_contains sub (d # ds) = (starts_with sub (d # ds) \<or> str_contains sub ds)"

section \<open>The command handler\<close>

text \<open>
  \<^verbatim>\<open>handle_command(command_text)\<close>: the first branch whose keyword occurs in the text
  prints its message and writes the pin; a text with neither keyword does nothing.
\<close>

definition handle_command :: "string \<Rightarrow> world \<Rightarrow> world" where
  "handle_command command_text w =
     (if str_contains ''on'' command_text then
        gpio_output High (print ''Command recognized: Turning LED ON'' w)
      else if str_contains ''off'' command_text then
        gpio_output Low (print ''Command recognized: Turning LED OFF'' w)
      else w)"

text \<open>
  What \<^verbatim>\<open>main\<close> does with a final result: \<^verbatim>\<open>command_text = result.lower()\<close>, then
  \<^verbatim>\<open>handle_command(command_text)\<close>.
\<close>

definition dispatch :: "string \<Rightarrow> world \<Rightarrow> world" where
  "dispatch result w = (let command_text = lower result in handle_command command_text w)"

section \<open>Calls that may raise\<close>

text \<open>
  A Python statement either completes or raises. A step of the model returns the
  exception raised, if any, with the state reached. The calls modelled as able to raise
  are the ones the program's control flow is written around: the model check and the
  loading of the model, the opening of the audio device, the blocking read of a frame,
  the recogniser's \<^verbatim>\<open>AcceptWaveform\<close>, and the four release calls of the
  \<^verbatim>\<open>finally\<close> block. The GPIO calls outside the \<^verbatim>\<open>finally\<close> block, the
  recogniser's text getters and \<^verbatim>\<open>print\<close> are taken to complete.
\<close>

type_synonym step = "world \<Rightarrow> exn option \<times> world"

text \<open>A call on a collaborator: it is recorded, and it raises what the collaborator makes it raise.\<close>

definition call :: "event \<Rightarrow> exn option \<Rightarrow> step" where
  "call e outcome w = (outcome, emit e w)"

text \<open>Two statements in sequence: the second runs only when the first has not raised.\<close>

definition seq :: "step \<Rightarrow> step \<Rightarrow> step" where
  "seq f g w = (case f w of (None, w') \<Rightarrow> g w' | (Some e, w') \<Rightarrow> (Some e, w'))"

section \<open>Setup\<close>

text \<open>
  \<^verbatim>\<open>setup_gpio()\<close>: numbering scheme, pin direction, and the LED switched off.
\<close>

definition setup_gpio :: "world \<Rightarrow> world" where
  "setup_gpio w = gpio_output Low (emit (GpioSetup LED_PIN) (emit GpioSetmode w))"

text \<open>What the collaborators answer during startup.\<close>

record startup =
  model_path_exists :: bool
  model_load :: "exn option"
  recognizer_create :: "exn option"
  pyaudio_create :: "exn option"
  stream_open :: "exn option"
  stream_start :: "exn option"

text \<open>
  \<^verbatim>\<open>setup_recognizer()\<close>: raises \<^verbatim>\<open>FileNotFoundError\<close> itself when
  \<^verbatim>\<open>os.path.exists(MODEL_PATH)\<close> is false, otherwise loads the model and creates
  the recogniser.
\<close>

definition setup_recognizer :: "startup \<Rightarrow> step" where
  "setup_recognizer st =
     seq (\<lambda>w. (if \<not> model_path_exists st
                then Some (FileNotFoundError
                  ''Please download the Vosk model and unpack it to the correct path.'')
                else None,
                emit (PathExists MODEL_PATH) w))
    (seq (call (ModelLoad MODEL_PATH) (model_load st))
         (call (RecognizerCreate AUDIO_RATE) (recognizer_create st)))"

text \<open>\<^verbatim>\<open>setup_audio_stream()\<close>: the PyAudio instance, the input stream, and its start.\<close>

definition setup_audio_stream :: "startup \<Rightarrow> step" where
  "setup_audio_stream st =
     seq (call PyAudioCreate (pyaudio_create st))
    (seq (call (StreamOpen AUDIO_RATE BUFFER_SIZE) (stream_open st))
         (call StreamStart (stream_start st)))"

section \<open>The capture loop\<close>

text \<open>
  What the collaborators answer in one iteration of the loop: \<^verbatim>\<open>stream.read\<close>
  returns bytes or raises; \<^verbatim>\<open>recognizer.AcceptWaveform\<close> returns a truth value or
  raises; \<^verbatim>\<open>recognizer.Result()\<close> and \<^verbatim>\<open>recognizer.PartialResult()\<close> return
  text. An interrupt by the operator arrives as a \<^verbatim>\<open>KeyboardInterrupt\<close> raised by
  one of the two calls that can raise.
\<close>

record iteration =
  read :: "exn + bytes"
  accept :: "exn + bool"
  full_result :: string
  partial_result :: string

text \<open>
  The body of \<^verbatim>\<open>while True\<close>. The result \<^term>\<open>None\<close> means the body completed (by
  reaching its end or by \<^verbatim>\<open>continue\<close>), so the loop goes on.
\<close>

definition loop_body :: "iteration \<Rightarrow> step" where
  "loop_body it w =
     (let w1 = emit (StreamRead BUFFER_SIZE) w in
      case read it of
        Inl e \<Rightarrow> (Some e, w1)
      | Inr data \<Rightarrow>
          if length data = 0 then (None, w1)
          else
            (let w2 = emit (AcceptWaveform data) w1 in
             case accept it of
               Inl e \<Rightarrow> (Some e, w2)
             | Inr final \<Rightarrow>
                 if final then
                   (let result = full_result it;
                        w3 = print (''Full result: '' @ result) (emit GetResult w2)
                    in (None, dispatch result w3))
                 else
                   (let partial = partial_result it
                    in (None, print (''Partial result: '' @ partial)
                                (emit GetPartialResult w2)))))"

text \<open>
  The loop has no exit of its own: it ends only when its body raises, and then yields the
  exception and the state reached. A run in which no iteration raises does not return
  (\<^term>\<open>None\<close>).
\<close>

partial_function (option) capture_loop :: "iteration stream \<Rightarrow> world \<Rightarrow> (exn \<times> world) option" where
  "capture_loop frames w =
     (case loop_body (shd frames) w of
        (None, w') \<Rightarrow> capture_loop (stl frames) w'
      | (Some e, w') \<Rightarrow> Some (e, w'))"

section \<open>Shutdown and the main function\<close>

text \<open>What the four release calls of the \<^verbatim>\<open>finally\<close> block do: complete or raise.\<close>

record shutdown =
  gpio_cleanup :: "exn option"
  stop_stream :: "exn option"
  close_stream :: "exn option"
  terminate :: "exn option"

text \<open>
  The body of the \<^verbatim>\<open>finally\<close> block, statement after statement. None of them
  writes a level to the LED pin: \<^verbatim>\<open>GPIO.cleanup()\<close> is a call on the GPIO library
  that hands the pins back (the comment at the call: no pin remains in output mode).
\<close>

definition cleanup :: "shutdown \<Rightarrow> step" where
  "cleanup sd =
     seq (call GpioCleanup (gpio_cleanup sd))
    (seq (call StreamStop (stop_stream sd))
    (seq (call StreamClose (close_stream sd))
    (seq (call PyAudioTerminate (terminate sd))
         (\<lambda>w. (None, print ''Cleaned up and exiting...'' w)))))"

text \<open>
  The \<^verbatim>\<open>try\<close> statement of \<^verbatim>\<open>main\<close>: the loop; the handler of
  \<^verbatim>\<open>KeyboardInterrupt\<close>, which prints a message; the \<^verbatim>\<open>finally\<close> block. An
  exception raised inside the \<^verbatim>\<open>finally\<close> block leaves the statement in place of
  the pending one; otherwise a pending exception that was not handled is raised again.
  The result is \<^term>\<open>None\<close> when the statement does not return,
  \<^term>\<open>Some (None, w)\<close> when it completes, and \<^term>\<open>Some (Some e, w)\<close> when the
  exception \<^verbatim>\<open>e\<close> leaves it.
\<close>

definition try_block :: "iteration stream \<Rightarrow> shutdown \<Rightarrow> world \<Rightarrow> (exn option \<times> world) option" where
  "try_block frames sd w4 =
     (case capture_loop frames w4 of
        None \<Rightarrow> None
      | Some (e, w5) \<Rightarrow>
          (let w6 = (if e = KeyboardInterrupt
                     then print ''Program interrupted by user.'' w5 else w5);
               pending = (if e = KeyboardInterrupt then None else Some e)
           in case cleanup sd w6 of
                (Some e', w7) \<Rightarrow> Some (Some e', w7)
              | (None, w7) \<Rightarrow> Some (pending, w7)))"

text \<open>Everything the collaborators answer in one run of the program.\<close>

record env =
  at_startup :: startup
  frames_of :: "iteration stream"
  at_shutdown :: shutdown

text \<open>
  \<^verbatim>\<open>main()\<close>. The three setup calls stand before the \<^verbatim>\<open>try\<close> statement: an
  exception there leaves \<^verbatim>\<open>main\<close> at once, and the \<^verbatim>\<open>finally\<close> block is not run.
\<close>

definition main :: "env \<Rightarrow> world \<Rightarrow> (exn option \<times> world) option" where
  "main ev w0 =
     (let w1 = setup_gpio w0 in
      case setup_recognizer (at_startup ev) w1 of
        (Some e, w2) \<Rightarrow> Some (Some e, w2)
      | (None, w2) \<Rightarrow>
          (case setup_audio_stream (at_startup ev) w2 of
             (Some e, w3) \<Rightarrow> Some (Some e, w3)
           | (None, w3) \<Rightarrow>
               (let w4 = print ''Listening for 'ON' or 'OFF' commands...'' w3
                in try_block (frames_of ev) (at_shutdown ev) w4)))"

section \<open>Observations on runs\<close>

text \<open>The calls made between two states of one run, and the writes of the actuator among them.\<close>

definition new_events :: "world \<Rightarrow> world \<Rightarrow> event list" where
  "new_events w w' = drop (length (trace w)) (trace w')"

fun is_gpio_output :: "event \<Rightarrow> bool" where
  "is_gpio_output (GpioOutput p l) = True"
| "is_gpio_output e = False"

definition actuator_writes :: "event list \<Rightarrow> nat" where
  "actuator_writes t = length (filter is_gpio_output t)"

text \<open>The release calls of the \<^verbatim>\<open>finally\<close> block, and the calls on the recogniser.\<close>

fun release_call :: "event \<Rightarrow> bool" where
  "release_call GpioCleanup = True"
| "release_call StreamStop = True"
| "release_call StreamClose = True"
| "release_call PyAudioTerminate = True"
| "release_call e = False"

fun on_recognizer :: "event \<Rightarrow> bool" where
  "on_recognizer (RecognizerCreate r) = True"
| "on_recognizer (AcceptWaveform d) = True"
| "on_recognizer GetResult = True"
| "on_recognizer GetPartialResult = True"
| "on_recognizer e = False"

text \<open>The exception the loop body raises on what an iteration is answered, if any.\<close>

definition iteration_raises :: "iteration \<Rightarrow> exn option" where
  "iteration_raises it =
     (case read it of
        Inl e \<Rightarrow> Some e
      | Inr data \<Rightarrow>
          if length data = 0 then None
          else (case accept it of Inl e \<Rightarrow> Some e | Inr final \<Rightarrow> None))"

text \<open>
  The loop is left in iteration \<open>n\<close> (counted from 0) with the exception \<open>e\<close>: the
  iterations before complete and that one raises \<open>e\<close>. The state in which it is left.
\<close>

fun exits_at :: "iteration stream \<Rightarrow> nat \<Rightarrow> exn \<Rightarrow> bool" where
  "exits_at frames 0 e = (iteration_raises (shd frames) = Some e)"
| "exits_at frames (Suc n) e =
     (iteration_raises (shd frames) = None \<and> exits_at (stl frames) n e)"

fun world_at_exit :: "iteration stream \<Rightarrow> nat \<Rightarrow> world \<Rightarrow> world" where
  "world_at_exit frames 0 w = snd (loop_body (shd frames) w)"
| "world_at_exit frames (Suc n) w =
     world_at_exit (stl frames) n (snd (loop_body (shd frames) w))"

text \<open>Startup succeeds; the state in which the loop is then entered. Every release call completes.\<close>

definition startup_ok :: "startup \<Rightarrow> bool" where
  "startup_ok st =
     (model_path_exists st \<and> model_load st = None \<and> recognizer_create st = None \<and>
      pyaudio_create st = None \<and> stream_open st = None \<and> stream_start st = None)"

definition loop_entry :: "startup \<Rightarrow> world \<Rightarrow> world" where
  "loop_entry st w0 =
     print ''Listening for 'ON' or 'OFF' commands...''
       (snd (setup_audio_stream st (snd (setup_recognizer st (setup_gpio w0)))))"

definition release_outcomes :: "shutdown \<Rightarrow> exn option list" where
  "release_outcomes sd = [gpio_cleanup sd, stop_stream sd, close_stream sd, terminate sd]"

definition shutdown_ok :: "shutdown \<Rightarrow> bool" where
  "shutdown_ok sd = (release_outcomes sd = [None, None, None, None])"

section \<open>Concrete runs\<close>

text \<open>
  A startup in which everything is in place, and one in which the model directory is
  missing; a shutdown in which every release call completes.
\<close>

definition good_startup :: startup where
  "good_startup =
     \<lparr>model_path_exists = True, model_load = None, recognizer_create = None,
      pyaudio_create = None, stream_open = None, stream_start = None\<rparr>"

definition no_model_startup :: startup where
  "no_model_startup = good_startup\<lparr>model_path_exists := False\<rparr>"

definition good_shutdown :: shutdown where
  "good_shutdown =
     \<lparr>gpio_cleanup = None, stop_stream = None, close_stream = None, terminate = None\<rparr>"

text \<open>
  Iterations: a frame on which the recogniser reports a partial result, one on which it
  reports a final result, an empty read, a read ended by the operator's interrupt, and a
  read that fails.
\<close>

definition partial_frame :: "string \<Rightarrow> iteration" where
  "partial_frame t =
     \<lparr>read = Inr [1, 2], accept = Inr False, full_result = [], partial_result = t\<rparr>"


definition empty_frame :: iteration where
  "empty_frame = \<lparr>read = Inr [], accept = Inr False, full_result = [], partial_result = []\<rparr>"

definition interrupted_read :: iteration where
  "interrupted_read =
     \<lparr>read = Inl KeyboardInterrupt, accept = Inr False, full_result = [], partial_result = []\<rparr>"

definition failed_read :: iteration where
  "failed_read =
     \<lparr>read = Inl (OtherError ''Stream closed''), accept = Inr False,
      full_result = [], partial_result = []\<rparr>"

definition start :: world where
  "start = \<lparr>led = High, trace = []\<rparr>"

text \<open>
  Runs of the whole program: the operator interrupts the first read; a command is
  recognised and then the operator interrupts; the operator interrupts the first read and
  again while the stream is being stopped; the first read fails and so does the stopping
  of the stream; the first read fails and so does the closing of the stream; the model
  directory is missing.
\<close>

definition interrupted_run :: env where
  "interrupted_run =
     \<lparr>at_startup = good_startup, frames_of = sconst interrupted_read,
      at_shutdown = good_shutdown\<rparr>"


definition impatient_run :: env where
  "impatient_run =
     \<lparr>at_startup = good_startup, frames_of = sconst interrupted_read,
      at_shutdown = good_shutdown\<lparr>stop_stream := Some KeyboardInterrupt\<rparr>\<rparr>"

definition broken_device_run :: env where
  "broken_device_run =
     \<lparr>at_startup = good_startup, frames_of = sconst failed_read,
      at_shutdown = good_shutdown\<lparr>stop_stream := Some (OtherError ''Stream not open'')\<rparr>\<rparr>"


definition no_model_run :: env where
  "no_model_run =
     \<lparr>at_startup = no_model_startup, frames_of = sconst interrupted_read,
      at_shutdown = good_shutdown\<rparr>"

section \<open>Basic facts\<close>

lemma led_emit: "led (emit e w) = led w"
  by (simp add: emit_def)

lemma trace_emit: "trace (emit e w) = trace w @ [e]"
  by (simp add: emit_def)

lemma led_print: "led (print s w) = led w"
  by (simp add: print_def led_emit)

lemma trace_print: "trace (print s w) = trace w @ [Print s]"
  by (simp add: print_def trace_emit)

lemma led_gpio_output: "led (gpio_output l w) = l"
  by (simp add: gpio_output_def)

lemma trace_gpio_output: "trace (gpio_output l w) = trace w @ [GpioOutput LED_PIN l]"
  by (simp add: gpio_output_def trace_emit)

lemmas world_simps = led_emit trace_emit led_print trace_print led_gpio_output trace_gpio_output

lemma new_events_append: "trace w' = trace w @ t \<Longrightarrow> new_events w w' = t"
  by (simp add: new_events_def)

lemma starts_with_iff: "starts_with sub s \<longleftrightarrow> (\<exists>ss. s = sub @ ss)"
  by (induction sub s rule: starts_with.induct) auto

lemma str_contains_iff: "str_contains sub s \<longleftrightarrow> (\<exists>ps ss. s = ps @ sub @ ss)"
proof (induction s)
  case Nil
  show ?case by auto
next
  case (Cons d ds)
  show ?case
  proof
    assume "str_contains sub (d # ds)"
    then consider "starts_with sub (d # ds)" | "str_contains sub ds" by auto
    then show "\<exists>ps ss. d # ds = ps @ sub @ ss"
    proof cases
      case 1
      then obtain ss where "d # ds = sub @ ss" using starts_with_iff by blast
      then have "d # ds = [] @ sub @ ss" by simp
      then show ?thesis by blast
    next
      case 2
      then obtain ps ss where "ds = ps @ sub @ ss" using Cons.IH by blast
      then have "d # ds = (d # ps) @ sub @ ss" by simp
      then show ?thesis by blast
    qed
  next
    assume "\<exists>ps ss. d # ds = ps @ sub @ ss"
    then obtain ps ss where eq: "d # ds = ps @ sub @ ss" by blast
    show "str_contains sub (d # ds)"
    proof (cases ps)
      case Nil
      with eq have "starts_with sub (d # ds)" using starts_with_iff by auto
      then show ?thesis by simp
    next
      case (Cons p ps')
      with eq have "ds = ps' @ sub @ ss" by simp
      then have "str_contains sub ds" using Cons.IH by blast
      then show ?thesis by simp
    qed
  qed
qed

lemma trace_handle_command:
  "trace (handle_command t w) = trace w @
     (if str_contains ''on'' t then
        [Print ''Command recognized: Turning LED ON'', GpioOutput LED_PIN High]
      else if str_contains ''off'' t then
        [Print ''Command recognized: Turning LED OFF'', GpioOutput LED_PIN Low]
      else [])"
  by (simp add: handle_command_def world_simps)

lemma led_handle_command:
  "led (handle_command t w) =
     (if str_contains ''on'' t then High else if str_contains ''off'' t then Low else led w)"
  by (simp add: handle_command_def world_simps)

lemma trace_dispatch:
  "trace (dispatch T w) = trace w @
     (if str_contains ''on'' (lower T) then
        [Print ''Command recognized: Turning LED ON'', GpioOutput LED_PIN High]
      else if str_contains ''off'' (lower T) then
        [Print ''Command recognized: Turning LED OFF'', GpioOutput LED_PIN Low]
      else [])"
  by (simp add: dispatch_def trace_handle_command)

subsection \<open>The loop body and the loop\<close>

lemma loop_body_trace:
  "\<exists>t. trace (snd (loop_body it w)) = trace w @ t
       \<and> actuator_writes t \<le> 1 \<and> filter release_call t = []"
  by (cases "read it"; cases "accept it")
     (simp_all add: loop_body_def Let_def world_simps trace_dispatch actuator_writes_def)

lemma fst_loop_body: "fst (loop_body it w) = iteration_raises it"
  by (simp add: loop_body_def iteration_raises_def Let_def split: sum.splits)

lemma loop_body_cases:
  obtains w1 where "loop_body it w = (iteration_raises it, w1)"
  by (metis fst_loop_body prod.collapse)

lemma capture_loop_exits:
  "exits_at frames n e \<Longrightarrow> capture_loop frames w = Some (e, world_at_exit frames n w)"
proof (induction n arbitrary: frames w)
  case 0
  obtain w1 where "loop_body (shd frames) w = (iteration_raises (shd frames), w1)"
    by (rule loop_body_cases)
  with 0 have "loop_body (shd frames) w = (Some e, w1)"
    by simp
  then show ?case
    by (subst capture_loop.simps) simp
next
  case (Suc n)
  obtain w1 where "loop_body (shd frames) w = (iteration_raises (shd frames), w1)"
    by (rule loop_body_cases)
  with Suc.prems have body: "loop_body (shd frames) w = (None, w1)"
    and rest: "exits_at (stl frames) n e"
    by simp_all
  have "capture_loop frames w = capture_loop (stl frames) w1"
    by (subst capture_loop.simps) (simp add: body)
  with Suc.IH [OF rest, of w1] show ?case by (simp add: body)
qed

lemma capture_loop_returns:
  assumes "capture_loop frames w = Some (e, w')"
  shows "\<exists>n. exits_at frames n e \<and> w' = world_at_exit frames n w"
proof -
  have "\<exists>n. exits_at frames n (fst (e, w')) \<and> snd (e, w') = world_at_exit frames n w"
  proof (rule capture_loop.raw_induct
      [where P = "\<lambda>fs w y. \<exists>n. exits_at fs n (fst y) \<and> snd y = world_at_exit fs n w",
       OF _ assms])
    fix loop :: "iteration stream \<Rightarrow> world \<Rightarrow> (exn \<times> world) option"
    fix fs :: "iteration stream" and w y
    assume IH: "\<And>fs w y. loop fs w = Some y \<Longrightarrow>
        \<exists>n. exits_at fs n (fst y) \<and> snd y = world_at_exit fs n w"
      and eq: "(case loop_body (shd fs) w of
          (None, w') \<Rightarrow> loop (stl fs) w'
        | (Some e, w') \<Rightarrow> Some (e, w')) = Some y"
    obtain w1 where body: "loop_body (shd fs) w = (iteration_raises (shd fs), w1)"
      by (rule loop_body_cases)
    show "\<exists>n. exits_at fs n (fst y) \<and> snd y = world_at_exit fs n w"
    proof (cases "iteration_raises (shd fs)")
      case None
      with eq body have "loop (stl fs) w1 = Some y"
        by simp
      from IH [OF this] obtain n where
        "exits_at (stl fs) n (fst y)" "snd y = world_at_exit (stl fs) n w1"
        by blast
      with None body
      have "exits_at fs (Suc n) (fst y) \<and> snd y = world_at_exit fs (Suc n) w"
        by simp
      then show ?thesis by blast
    next
      case (Some x)
      with eq body have "y = (x, w1)"
        by simp
      with Some body
      have "exits_at fs 0 (fst y) \<and> snd y = world_at_exit fs 0 w"
        by simp
      then show ?thesis by blast
    qed
  qed
  then show ?thesis by simp
qed

lemma capture_loop_forever:
  "capture_loop frames w = None \<longleftrightarrow> (\<forall>n e. \<not> exits_at frames n e)"
proof
  assume "capture_loop frames w = None"
  then show "\<forall>n e. \<not> exits_at frames n e"
    using capture_loop_exits by fastforce
next
  assume never: "\<forall>n e. \<not> exits_at frames n e"
  show "capture_loop frames w = None"
  proof (cases "capture_loop frames w")
    case None
    then show ?thesis .
  next
    case (Some y)
    then have "capture_loop frames w = Some (fst y, snd y)" by simp
    from capture_loop_returns [OF this] never show ?thesis by blast
  qed
qed


subsection \<open>Setup, shutdown and the main function\<close>

lemma setup_gpio_world:
  "led (setup_gpio w) = Low"
  "trace (setup_gpio w) = trace w @ [GpioSetmode, GpioSetup LED_PIN, GpioOutput LED_PIN Low]"
  by (simp_all add: setup_gpio_def world_simps)

lemma setup_recognizer_ok:
  "startup_ok st \<Longrightarrow> setup_recognizer st w =
     (None, emit (RecognizerCreate AUDIO_RATE) (emit (ModelLoad MODEL_PATH)
              (emit (PathExists MODEL_PATH) w)))"
  by (simp add: startup_ok_def setup_recognizer_def seq_def call_def)

lemma setup_audio_stream_ok:
  "startup_ok st \<Longrightarrow> setup_audio_stream st w =
     (None, emit StreamStart (emit (StreamOpen AUDIO_RATE BUFFER_SIZE) (emit PyAudioCreate w)))"
  by (simp add: startup_ok_def setup_audio_stream_def seq_def call_def)

lemma main_started:
  "startup_ok (at_startup ev) \<Longrightarrow>
     main ev w0 = try_block (frames_of ev) (at_shutdown ev) (loop_entry (at_startup ev) w0)"
  by (simp add: main_def loop_entry_def setup_recognizer_ok setup_audio_stream_ok)


lemma cleanup_ok:
  "shutdown_ok sd \<Longrightarrow> fst (cleanup sd w) = None \<and> led (snd (cleanup sd w)) = led w \<and>
     trace (snd (cleanup sd w)) = trace w @
       [GpioCleanup, StreamStop, StreamClose, PyAudioTerminate,
        Print ''Cleaned up and exiting...'']"
  by (simp add: shutdown_ok_def release_outcomes_def cleanup_def seq_def call_def
      world_simps)

lemma cleanup_events:
  "fst (cleanup sd w) =
     (case dropWhile (\<lambda>r. r = None) (release_outcomes sd) of [] \<Rightarrow> None | x # xs \<Rightarrow> x) \<and>
   trace (snd (cleanup sd w)) = trace w @
     take (Suc (length (takeWhile (\<lambda>r. r = None) (release_outcomes sd))))
       [GpioCleanup, StreamStop, StreamClose, PyAudioTerminate,
        Print ''Cleaned up and exiting...'']"
  by (cases "gpio_cleanup sd"; cases "stop_stream sd"; cases "close_stream sd";
      cases "terminate sd")
     (simp_all add: release_outcomes_def cleanup_def seq_def call_def
      world_simps)

lemma try_block_exit:
  "capture_loop frames w = Some (e, w5) \<Longrightarrow>
   try_block frames sd w =
     (let w6 = (if e = KeyboardInterrupt then print ''Program interrupted by user.'' w5 else w5)
      in Some (case fst (cleanup sd w6) of
                 Some e' \<Rightarrow> Some e'
               | None \<Rightarrow> if e = KeyboardInterrupt then None else Some e,
               snd (cleanup sd w6)))"
  by (simp add: try_block_def Let_def split: prod.splits option.splits)

lemma cleanup_release_calls:
  "filter release_call (new_events w (snd (cleanup sd w))) =
     take (Suc (length (takeWhile (\<lambda>r. r = None) (release_outcomes sd))))
       [GpioCleanup, StreamStop, StreamClose, PyAudioTerminate]"
  by (cases "gpio_cleanup sd"; cases "stop_stream sd"; cases "close_stream sd";
      cases "terminate sd")
     (simp_all add: new_events_def release_outcomes_def cleanup_def seq_def call_def
      world_simps)

lemma cleanup_extends: "\<exists>t. trace (snd (cleanup sd w)) = trace w @ t"
  using cleanup_events by blast

lemma good_startup_ok: "startup_ok good_startup"
  by (simp add: startup_ok_def good_startup_def)

lemma good_shutdown_ok: "shutdown_ok good_shutdown"
  by (simp add: shutdown_ok_def release_outcomes_def good_shutdown_def)

lemma capture_loop_interrupted:
  "capture_loop (sconst interrupted_read) w =
     Some (KeyboardInterrupt, emit (StreamRead BUFFER_SIZE) w)"
proof -
  have "exits_at (sconst interrupted_read) 0 KeyboardInterrupt"
    by (simp add: iteration_raises_def interrupted_read_def)
  from capture_loop_exits [OF this, of w] show ?thesis
    by (simp add: loop_body_def interrupted_read_def)
qed

lemma capture_loop_failed:
  "capture_loop (sconst failed_read) w =
     Some (OtherError ''Stream closed'', emit (StreamRead BUFFER_SIZE) w)"
proof -
  have "exits_at (sconst failed_read) 0 (OtherError ''Stream closed'')"
    by (simp add: iteration_raises_def failed_read_def)
  from capture_loop_exits [OF this, of w] show ?thesis
    by (simp add: loop_body_def failed_read_def)
qed



lemma cleanup_outcome:
  "(case fst (cleanup sd w) of Some e' \<Rightarrow> Some e' | None \<Rightarrow> pending) =
   (case dropWhile (\<lambda>r. r = None) (release_outcomes sd) of [] \<Rightarrow> pending | x # xs \<Rightarrow> x)"
  by (cases "gpio_cleanup sd"; cases "stop_stream sd"; cases "close_stream sd";
      cases "terminate sd")
     (simp_all add: release_outcomes_def cleanup_def seq_def call_def)

section \<open>The dispatch rule\<close>

text \<open>
  Claim C1. What is done with a final result text \<open>T\<close> depends on the lowercase form of
  \<open>T\<close> only: when that form has the substring \<^verbatim>\<open>on\<close> the actuator is set
  \<^term>\<open>High\<close>; otherwise, when it has the substring \<^verbatim>\<open>off\<close>, the actuator is set
  \<^term>\<open>Low\<close>; otherwise nothing is called and the state is unchanged. So
  \<^verbatim>\<open>Turn ON the light\<close> and \<^verbatim>\<open>onion soup\<close> switch the LED on,
  \<^verbatim>\<open>please turn off\<close> switches it off, and \<^verbatim>\<open>hello world\<close> does nothing.
\<close>

theorem dispatch_rule:
  "dispatch T w =
     (if \<exists>ps ss. lower T = ps @ ''on'' @ ss then
        gpio_output High (print ''Command recognized: Turning LED ON'' w)
      else if \<exists>ps ss. lower T = ps @ ''off'' @ ss then
        gpio_output Low (print ''Command recognized: Turning LED OFF'' w)
      else w)
   \<and> dispatch ''Turn ON the light'' w =
       gpio_output High (print ''Command recognized: Turning LED ON'' w)
   \<and> dispatch ''please turn off'' w =
       gpio_output Low (print ''Command recognized: Turning LED OFF'' w)
   \<and> dispatch ''hello world'' w = w
   \<and> dispatch ''onion soup'' w =
       gpio_output High (print ''Command recognized: Turning LED ON'' w)"
proof -
  have general: "dispatch T w =
     (if \<exists>ps ss. lower T = ps @ ''on'' @ ss then
        gpio_output High (print ''Command recognized: Turning LED ON'' w)
      else if \<exists>ps ss. lower T = ps @ ''off'' @ ss then
        gpio_output Low (print ''Command recognized: Turning LED OFF'' w)
      else w)"
    unfolding dispatch_def handle_command_def Let_def str_contains_iff ..
  have on: "dispatch ''Turn ON the light'' w =
       gpio_output High (print ''Command recognized: Turning LED ON'' w)"
    by code_simp
  have off: "dispatch ''please turn off'' w =
       gpio_output Low (print ''Command recognized: Turning LED OFF'' w)"
    by code_simp
  have none: "dispatch ''hello world'' w = w"
    by code_simp
  have onion: "dispatch ''onion soup'' w =
       gpio_output High (print ''Command recognized: Turning LED ON'' w)"
    by code_simp
  from general on off none onion show ?thesis by blast
qed

section \<open>One iteration of the loop\<close>

text \<open>
  Claim C2. In an iteration in which the recogniser reports only a partial result
  (\<^verbatim>\<open>AcceptWaveform\<close> returns false) nothing is dispatched and the actuator keeps its
  state: the iteration completes, and its calls are the read, \<^verbatim>\<open>AcceptWaveform\<close>,
  \<^verbatim>\<open>PartialResult\<close> and the printing of the partial text; none writes the actuator.
\<close>

theorem partial_no_dispatch:
  assumes "read it = Inr data" and "length data \<noteq> 0" and "accept it = Inr False"
  shows "fst (loop_body it w) = None
       \<and> led (snd (loop_body it w)) = led w
       \<and> trace (snd (loop_body it w)) = trace w @
           [StreamRead BUFFER_SIZE, AcceptWaveform data, GetPartialResult,
            Print (''Partial result: '' @ partial_result it)]
       \<and> actuator_writes (new_events w (snd (loop_body it w))) = 0"
proof -
  have body: "loop_body it w =
      (None, print (''Partial result: '' @ partial_result it)
               (emit GetPartialResult (emit (AcceptWaveform data)
                 (emit (StreamRead BUFFER_SIZE) w))))"
    using assms by (simp add: loop_body_def)
  have tr: "trace (snd (loop_body it w)) = trace w @
           [StreamRead BUFFER_SIZE, AcceptWaveform data, GetPartialResult,
            Print (''Partial result: '' @ partial_result it)]"
    by (simp add: body world_simps)
  have "new_events w (snd (loop_body it w)) =
           [StreamRead BUFFER_SIZE, AcceptWaveform data, GetPartialResult,
            Print (''Partial result: '' @ partial_result it)]"
    using tr by (rule new_events_append)
  then have "actuator_writes (new_events w (snd (loop_body it w))) = 0"
    by (simp add: actuator_writes_def)
  moreover have "fst (loop_body it w) = None" "led (snd (loop_body it w)) = led w"
    by (simp_all add: body world_simps)
  ultimately show ?thesis using tr by simp
qed

theorem partial_no_dispatch_witness:
  "fst (loop_body (partial_frame ''turn on'') start) = None
   \<and> led (snd (loop_body (partial_frame ''turn on'') start)) = High
   \<and> trace (snd (loop_body (partial_frame ''turn on'') start)) =
       [StreamRead 4096, AcceptWaveform [1, 2], GetPartialResult,
        Print ''Partial result: turn on'']
   \<and> actuator_writes (new_events start (snd (loop_body (partial_frame ''turn on'') start))) = 0"
  using partial_no_dispatch [of "partial_frame ''turn on''" "[1, 2]" start]
  by (simp add: partial_frame_def start_def BUFFER_SIZE_def)

text \<open>
  Claim C3. In an iteration whose read returns data of length zero, the only call is the
  read: nothing is passed to the recogniser, the actuator keeps its state, no exception
  is raised and the loop goes on with its next iteration.
\<close>

theorem empty_read_skipped:
  assumes "read it = Inr data" and "length data = 0"
  shows "loop_body it w = (None, emit (StreamRead BUFFER_SIZE) w)
       \<and> led (snd (loop_body it w)) = led w
       \<and> trace (snd (loop_body it w)) = trace w @ [StreamRead BUFFER_SIZE]
       \<and> filter on_recognizer (new_events w (snd (loop_body it w))) = []
       \<and> capture_loop (it ## rest) w = capture_loop rest (emit (StreamRead BUFFER_SIZE) w)"
proof -
  have body: "loop_body it w = (None, emit (StreamRead BUFFER_SIZE) w)"
    using assms by (simp add: loop_body_def)
  have tr: "trace (snd (loop_body it w)) = trace w @ [StreamRead BUFFER_SIZE]"
    by (simp add: body world_simps)
  have "new_events w (snd (loop_body it w)) = [StreamRead BUFFER_SIZE]"
    using tr by (rule new_events_append)
  then have quiet: "filter on_recognizer (new_events w (snd (loop_body it w))) = []"
    by simp
  have next_iteration:
    "capture_loop (it ## rest) w = capture_loop rest (emit (StreamRead BUFFER_SIZE) w)"
    by (subst capture_loop.simps) (simp add: body)
  show ?thesis using body tr quiet next_iteration by (simp add: world_simps)
qed

theorem empty_read_skipped_witness:
  "loop_body empty_frame start = (None, emit (StreamRead BUFFER_SIZE) start)
   \<and> led (snd (loop_body empty_frame start)) = High
   \<and> trace (snd (loop_body empty_frame start)) = [StreamRead 4096]
   \<and> filter on_recognizer (new_events start (snd (loop_body empty_frame start))) = []
   \<and> capture_loop (empty_frame ## sconst interrupted_read) start =
       capture_loop (sconst interrupted_read) (emit (StreamRead BUFFER_SIZE) start)"
  using empty_read_skipped [of empty_frame "[]" start "sconst interrupted_read"]
  by (simp add: empty_frame_def start_def BUFFER_SIZE_def emit_def new_events_def)

text \<open>
  Claim C10. One iteration of the loop writes the actuator at most once: the two branches
  of \<^verbatim>\<open>handle_command\<close> exclude each other, so one call of it makes at most one
  \<^verbatim>\<open>GPIO.output\<close> call, and the loop body calls it at most once.
\<close>

theorem one_write_per_iteration:
  "actuator_writes (new_events w (handle_command t w)) \<le> 1
   \<and> actuator_writes (new_events w (snd (loop_body it w))) \<le> 1"
proof -
  have "actuator_writes (new_events w (handle_command t w)) \<le> 1"
    by (simp add: new_events_def trace_handle_command actuator_writes_def)
  moreover obtain t where "trace (snd (loop_body it w)) = trace w @ t" "actuator_writes t \<le> 1"
    using loop_body_trace by blast
  then have "actuator_writes (new_events w (snd (loop_body it w))) \<le> 1"
    by (simp add: new_events_def)
  ultimately show ?thesis by simp
qed

section \<open>Properties of the dispatch\<close>

text \<open>
  Claim C8. Whatever the state of the actuator, dispatching a text recognised as
  switching on leaves the actuator \<^term>\<open>High\<close>, and dispatching a second such text
  right after leaves it \<^term>\<open>High\<close>: switching on does not toggle.
\<close>

theorem turn_on_idempotent:
  assumes "str_contains ''on'' (lower T1)" and "str_contains ''on'' (lower T2)"
  shows "led (dispatch T1 w) = High \<and> led (dispatch T2 (dispatch T1 w)) = High"
  using assms by (simp add: dispatch_def led_handle_command)

theorem turn_on_idempotent_witness:
  "led (dispatch ''turn on'' start) = High
   \<and> led (dispatch ''Light ON please'' (dispatch ''turn on'' start)) = High"
proof -
  have a: "str_contains ''on'' (lower ''turn on'')" by code_simp
  have b: "str_contains ''on'' (lower ''Light ON please'')" by code_simp
  show ?thesis using turn_on_idempotent [OF a b, of start] .
qed

text \<open>
  Claim C9. The match of \<^verbatim>\<open>handle_command\<close> is case-sensitive: on a text with
  neither \<^verbatim>\<open>on\<close> nor \<^verbatim>\<open>off\<close> in lowercase, whatever it has in other cases, it
  calls nothing. The dispatch of such a text still acts on a keyword in any case, since
  it hands \<^verbatim>\<open>handle_command\<close> the lowercase form of the text.
\<close>

theorem handle_command_case_sensitive:
  assumes "\<not> str_contains ''on'' t" and "\<not> str_contains ''off'' t"
  shows "handle_command t w = w
       \<and> dispatch t w = handle_command (lower t) w
       \<and> (str_contains ''on'' (lower t) \<longrightarrow> led (dispatch t w) = High)
       \<and> (\<not> str_contains ''on'' (lower t) \<and> str_contains ''off'' (lower t)
            \<longrightarrow> led (dispatch t w) = Low)"
  using assms by (simp add: handle_command_def dispatch_def world_simps)

theorem handle_command_case_sensitive_witness:
  "handle_command ''Turn ON the light'' start = start
   \<and> dispatch ''Turn ON the light'' start = handle_command (lower ''Turn ON the light'') start
   \<and> str_contains ''on'' (lower ''Turn ON the light'')
   \<and> led (dispatch ''Turn ON the light'' start) = High"
proof -
  have a: "\<not> str_contains ''on'' ''Turn ON the light''" by simp
  have b: "\<not> str_contains ''off'' ''Turn ON the light''" by simp
  have c: "str_contains ''on'' (lower ''Turn ON the light'')" by code_simp
  from handle_command_case_sensitive [OF a b, of start] c show ?thesis by blast
qed

section \<open>Startup without the model\<close>

text \<open>
  Claim C5, as amended. When the model path does not exist at startup, \<^verbatim>\<open>main\<close>
  ends with the \<^verbatim>\<open>FileNotFoundError\<close> of \<^verbatim>\<open>setup_recognizer\<close> and never
  reaches the capture loop: the audio stream is not opened and nothing is read. The
  actuator is written exactly once, by \<^verbatim>\<open>setup_gpio\<close>, which runs before the model
  check and sets the LED \<^term>\<open>Low\<close>; it is never set \<^term>\<open>High\<close>.
\<close>

theorem model_missing_stops_startup:
  assumes "\<not> model_path_exists (at_startup ev)"
  shows "\<exists>w'. main ev w0 =
           Some (Some (FileNotFoundError
             ''Please download the Vosk model and unpack it to the correct path.''), w')
       \<and> led w' = Low
       \<and> new_events w0 w' =
           [GpioSetmode, GpioSetup LED_PIN, GpioOutput LED_PIN Low, PathExists MODEL_PATH]
       \<and> actuator_writes (new_events w0 w') = 1"
proof -
  let ?w' = "emit (PathExists MODEL_PATH) (setup_gpio w0)"
  have "main ev w0 =
      Some (Some (FileNotFoundError
        ''Please download the Vosk model and unpack it to the correct path.''), ?w')"
    using assms by (simp add: main_def setup_recognizer_def seq_def)
  moreover have "led ?w' = Low"
    by (simp add: world_simps setup_gpio_world)
  moreover have new: "new_events w0 ?w' =
      [GpioSetmode, GpioSetup LED_PIN, GpioOutput LED_PIN Low, PathExists MODEL_PATH]"
    by (rule new_events_append) (simp add: world_simps setup_gpio_world)
  moreover have "actuator_writes (new_events w0 ?w') = 1"
    by (simp add: new actuator_writes_def)
  ultimately show ?thesis by blast
qed

theorem model_missing_stops_startup_witness:
  "\<not> model_path_exists (at_startup no_model_run)
   \<and> (\<exists>w'. main no_model_run start =
           Some (Some (FileNotFoundError
             ''Please download the Vosk model and unpack it to the correct path.''), w')
       \<and> led w' = Low
       \<and> new_events start w' =
           [GpioSetmode, GpioSetup LED_PIN, GpioOutput LED_PIN Low, PathExists MODEL_PATH]
       \<and> actuator_writes (new_events start w') = 1)"
proof -
  have a: "\<not> model_path_exists (at_startup no_model_run)"
    by (simp add: no_model_run_def no_model_startup_def)
  from a model_missing_stops_startup [OF a, of start] show ?thesis by blast
qed

text \<open>
  That the actuator is never written when the model is missing does not hold: in the run
  \<^term>\<open>no_model_run\<close> the calls made before the error include one
  \<^verbatim>\<open>GPIO.output(LED_PIN, GPIO.LOW)\<close>.
\<close>

theorem model_missing_actuator_written:
  "main no_model_run start =
     Some (Some (FileNotFoundError
       ''Please download the Vosk model and unpack it to the correct path.''),
       \<lparr>led = Low,
        trace = [GpioSetmode, GpioSetup LED_PIN, GpioOutput LED_PIN Low,
                 PathExists MODEL_PATH]\<rparr>)
   \<and> actuator_writes
       [GpioSetmode, GpioSetup LED_PIN, GpioOutput LED_PIN Low, PathExists MODEL_PATH] = 1"
  by (simp add: main_def no_model_run_def no_model_startup_def good_startup_def
      setup_recognizer_def seq_def setup_gpio_def gpio_output_def emit_def start_def
      actuator_writes_def)

section \<open>Shutdown\<close>




text \<open>
  Claim C6, as amended. When a \<^verbatim>\<open>KeyboardInterrupt\<close> ends the loop, it is handled:
  the message of the handler is printed, the same shutdown sequence runs, and
  \<^verbatim>\<open>main\<close> ends as that sequence ends, so the interrupt that ended the loop is not
  propagated. When every release call completes, \<^verbatim>\<open>main\<close> returns normally, with
  the level last written to the actuator as the loop left it.
\<close>

theorem interrupt_handled:
  assumes "startup_ok (at_startup ev)"
    and "capture_loop (frames_of ev) (loop_entry (at_startup ev) w0) =
           Some (KeyboardInterrupt, w5)"
  shows "main ev w0 =
           Some (cleanup (at_shutdown ev) (print ''Program interrupted by user.'' w5))
       \<and> (shutdown_ok (at_shutdown ev) \<longrightarrow>
            (\<exists>w'. main ev w0 = Some (None, w')
               \<and> led w' = led w5
               \<and> trace w' = trace w5 @
                   [Print ''Program interrupted by user.'', GpioCleanup, StreamStop,
                    StreamClose, PyAudioTerminate, Print ''Cleaned up and exiting...'']))"
proof -
  let ?w6 = "print ''Program interrupted by user.'' w5"
  let ?c = "cleanup (at_shutdown ev) ?w6"
  have "main ev w0 =
      try_block (frames_of ev) (at_shutdown ev) (loop_entry (at_startup ev) w0)"
    using assms(1) by (rule main_started)
  also have "\<dots> = Some (case fst ?c of Some e' \<Rightarrow> Some e' | None \<Rightarrow> None, snd ?c)"
    using try_block_exit [OF assms(2), of "at_shutdown ev"] by (simp add: Let_def)
  also have "(case fst ?c of Some e' \<Rightarrow> Some e' | None \<Rightarrow> None, snd ?c) = ?c"
    by (cases ?c) (simp split: option.splits)
  finally have outcome: "main ev w0 = Some ?c" .
  have "\<exists>w'. main ev w0 = Some (None, w')
               \<and> led w' = led w5
               \<and> trace w' = trace w5 @
                   [Print ''Program interrupted by user.'', GpioCleanup, StreamStop,
                    StreamClose, PyAudioTerminate, Print ''Cleaned up and exiting...'']"
    if ok: "shutdown_ok (at_shutdown ev)"
  proof -
    from cleanup_ok [OF ok, of ?w6]
    have "fst ?c = None" "led (snd ?c) = led w5"
      "trace (snd ?c) = trace w5 @
         [Print ''Program interrupted by user.'', GpioCleanup, StreamStop,
          StreamClose, PyAudioTerminate, Print ''Cleaned up and exiting...'']"
      by (simp_all add: world_simps)
    moreover from this(1) have "?c = (None, snd ?c)"
      by (metis prod.collapse)
    ultimately show ?thesis using outcome by metis
  qed
  with outcome show ?thesis by blast
qed

theorem interrupt_handled_witness:
  "startup_ok (at_startup interrupted_run)
   \<and> capture_loop (frames_of interrupted_run) (loop_entry (at_startup interrupted_run) start) =
       Some (KeyboardInterrupt,
         emit (StreamRead BUFFER_SIZE) (loop_entry (at_startup interrupted_run) start))
   \<and> shutdown_ok (at_shutdown interrupted_run)
   \<and> (\<exists>w'. main interrupted_run start = Some (None, w') \<and> led w' = Low)"
proof -
  have a: "startup_ok (at_startup interrupted_run)"
    by (simp add: interrupted_run_def good_startup_ok)
  have b: "capture_loop (frames_of interrupted_run)
      (loop_entry (at_startup interrupted_run) start) =
       Some (KeyboardInterrupt,
         emit (StreamRead BUFFER_SIZE) (loop_entry (at_startup interrupted_run) start))"
    by (simp add: interrupted_run_def capture_loop_interrupted)
  have c: "shutdown_ok (at_shutdown interrupted_run)"
    by (simp add: interrupted_run_def good_shutdown_ok)
  have level: "led (emit (StreamRead BUFFER_SIZE)
      (loop_entry (at_startup interrupted_run) start)) = Low"
    by (simp add: loop_entry_def world_simps setup_gpio_world setup_recognizer_ok
        setup_audio_stream_ok a)
  from interrupt_handled [OF a b] c obtain w' where
    "main interrupted_run start = Some (None, w')"
    "led w' = led (emit (StreamRead BUFFER_SIZE)
      (loop_entry (at_startup interrupted_run) start))"
    by blast
  with level have "main interrupted_run start = Some (None, w') \<and> led w' = Low"
    by simp
  then have "\<exists>w'. main interrupted_run start = Some (None, w') \<and> led w' = Low"
    by blast
  with a b c show ?thesis by blast
qed

text \<open>
  That the program always completes normally after an interrupt does not hold: in the run
  \<^term>\<open>impatient_run\<close> the operator interrupts the first read and again while
  \<^verbatim>\<open>stream.stop_stream()\<close> runs; the second \<^verbatim>\<open>KeyboardInterrupt\<close> leaves
  \<^verbatim>\<open>main\<close>, and the stream is neither closed nor PyAudio terminated.
\<close>

theorem second_interrupt_propagates:
  "main impatient_run start =
     Some (Some KeyboardInterrupt,
       \<lparr>led = Low,
        trace = [GpioSetmode, GpioSetup LED_PIN, GpioOutput LED_PIN Low,
                 PathExists MODEL_PATH, ModelLoad MODEL_PATH, RecognizerCreate AUDIO_RATE,
                 PyAudioCreate, StreamOpen AUDIO_RATE BUFFER_SIZE, StreamStart,
                 Print ''Listening for 'ON' or 'OFF' commands...'',
                 StreamRead BUFFER_SIZE, Print ''Program interrupted by user.'',
                 GpioCleanup, StreamStop]\<rparr>)"
proof -
  have "startup_ok (at_startup impatient_run)"
    by (simp add: impatient_run_def good_startup_ok)
  from main_started [OF this, of start] show ?thesis
    by (simp add: impatient_run_def try_block_def capture_loop_interrupted
        loop_entry_def setup_recognizer_ok setup_audio_stream_ok good_startup_ok
        cleanup_def seq_def call_def good_shutdown_def
        setup_gpio_def gpio_output_def print_def emit_def start_def)
qed

text \<open>
  Claim C7, as amended. The release calls of the \<^verbatim>\<open>finally\<close> block are not
  guarded. They are made in order up to and including the first one that raises; the
  calls after it are skipped, and what it raised leaves the \<^verbatim>\<open>try\<close> statement in
  place of the primary cause of exit. When none raises, all four are made and the primary
  cause is kept: a normal return after an interrupt, the loop's exception otherwise.
\<close>

theorem shutdown_unguarded:
  assumes "capture_loop frames w = Some (e, w5)"
  shows "\<exists>w'. try_block frames sd w =
           Some (case dropWhile (\<lambda>r. r = None) (release_outcomes sd) of
                   [] \<Rightarrow> if e = KeyboardInterrupt then None else Some e
                 | x # xs \<Rightarrow> x, w')
       \<and> filter release_call (new_events w5 w') =
           take (Suc (length (takeWhile (\<lambda>r. r = None) (release_outcomes sd))))
             [GpioCleanup, StreamStop, StreamClose, PyAudioTerminate]"
proof -
  let ?w6 = "if e = KeyboardInterrupt then print ''Program interrupted by user.'' w5 else w5"
  let ?w' = "snd (cleanup sd ?w6)"
  let ?first = "dropWhile (\<lambda>r. r = None) (release_outcomes sd)"
  have "(case fst (cleanup sd ?w6) of
           Some e' \<Rightarrow> Some e'
         | None \<Rightarrow> if e = KeyboardInterrupt then None else Some e) =
        (case ?first of [] \<Rightarrow> if e = KeyboardInterrupt then None else Some e | x # xs \<Rightarrow> x)"
    by (rule cleanup_outcome)
  then have result: "try_block frames sd w =
      Some (case ?first of [] \<Rightarrow> if e = KeyboardInterrupt then None else Some e | x # xs \<Rightarrow> x,
            ?w')"
    using try_block_exit [OF assms, of sd] by (simp add: Let_def)
  obtain t where "trace ?w' = trace ?w6 @ t"
    using cleanup_extends by blast
  then have "new_events w5 ?w' =
      (if e = KeyboardInterrupt then [Print ''Program interrupted by user.''] else []) @
      new_events ?w6 ?w'"
    by (simp add: new_events_def world_simps)
  then have "filter release_call (new_events w5 ?w') =
      filter release_call (new_events ?w6 ?w')"
    by simp
  also have "\<dots> = take (Suc (length (takeWhile (\<lambda>r. r = None) (release_outcomes sd))))
      [GpioCleanup, StreamStop, StreamClose, PyAudioTerminate]"
    by (rule cleanup_release_calls)
  finally show ?thesis using result by blast
qed

theorem shutdown_unguarded_witness:
  "capture_loop (sconst failed_read) start =
     Some (OtherError ''Stream closed'', emit (StreamRead BUFFER_SIZE) start)
   \<and> (\<exists>w'. try_block (sconst failed_read)
              (good_shutdown\<lparr>close_stream := Some (OtherError ''Stream not open'')\<rparr>) start =
            Some (Some (OtherError ''Stream not open''), w')
        \<and> filter release_call (new_events (emit (StreamRead BUFFER_SIZE) start) w') =
            [GpioCleanup, StreamStop, StreamClose])"
proof -
  have a: "capture_loop (sconst failed_read) start =
      Some (OtherError ''Stream closed'', emit (StreamRead BUFFER_SIZE) start)"
    by (rule capture_loop_failed)
  from shutdown_unguarded
    [OF a, of "good_shutdown\<lparr>close_stream := Some (OtherError ''Stream not open'')\<rparr>"]
  have "\<exists>w'. try_block (sconst failed_read)
              (good_shutdown\<lparr>close_stream := Some (OtherError ''Stream not open'')\<rparr>) start =
            Some (Some (OtherError ''Stream not open''), w')
        \<and> filter release_call (new_events (emit (StreamRead BUFFER_SIZE) start) w') =
            [GpioCleanup, StreamStop, StreamClose]"
    by (simp add: release_outcomes_def good_shutdown_def)
  with a show ?thesis by blast
qed

text \<open>
  That the shutdown never raises and always runs all its steps does not hold: in the run
  \<^term>\<open>broken_device_run\<close> the first read fails, then \<^verbatim>\<open>stream.stop_stream()\<close>
  fails; its error leaves \<^verbatim>\<open>main\<close> in place of the error of the read, and the
  stream is neither closed nor PyAudio terminated.
\<close>

theorem failed_release_masks_cause:
  "main broken_device_run start =
     Some (Some (OtherError ''Stream not open''),
       \<lparr>led = Low,
        trace = [GpioSetmode, GpioSetup LED_PIN, GpioOutput LED_PIN Low,
                 PathExists MODEL_PATH, ModelLoad MODEL_PATH, RecognizerCreate AUDIO_RATE,
                 PyAudioCreate, StreamOpen AUDIO_RATE BUFFER_SIZE, StreamStart,
                 Print ''Listening for 'ON' or 'OFF' commands...'',
                 StreamRead BUFFER_SIZE, GpioCleanup, StreamStop]\<rparr>)"
proof -
  have "startup_ok (at_startup broken_device_run)"
    by (simp add: broken_device_run_def good_startup_ok)
  from main_started [OF this, of start] show ?thesis
    by (simp add: broken_device_run_def try_block_def capture_loop_failed
        loop_entry_def setup_recognizer_ok setup_audio_stream_ok good_startup_ok
        cleanup_def seq_def call_def good_shutdown_def
        setup_gpio_def gpio_output_def print_def emit_def start_def)
qed

end
